theory Spec2Isabelle
  imports Complex_Main
begin

section \<open>Python values\<close>

text \<open>
  The capability pipeline of the repository lives in three modules:
  \<^verbatim>\<open>core/executor.py\<close> (class \<^verbatim>\<open>Executor\<close>), \<^verbatim>\<open>core/integrator.py\<close>
  (class \<^verbatim>\<open>Integrator\<close>) and \<^verbatim>\<open>core/memory.py\<close> (class \<^verbatim>\<open>Memory\<close>).
  The values that cross the process boundary are JSON documents. A Python \<^verbatim>\<open>float\<close>
  is modelled by the rational it denotes (the only floats the pipeline computes with are
  elapsed times, which are inputs here, and the pass rate, see \<open>test_tool\<close>).
\<close>

datatype json =
    JNull
  | JBool bool
  | JInt int
  | JFloat rat
  | JStr string
  | JList "json list"
  | JDict "(string \<times> json) list"

type_synonym pydict = "(string \<times> json) list"

text \<open>
  A Python \<^verbatim>\<open>dict\<close> keeps its keys in insertion order, and assigning to a key that is
  present replaces the value where it stands. \<open>dict_get\<close> is \<^verbatim>\<open>d.get(k)\<close> with the
  absent key as \<open>None\<close>, \<open>dict_set\<close> is \<^verbatim>\<open>d[k] = v\<close>, \<open>dict_pop\<close> removes a key and
  \<open>dict_values\<close> is \<^verbatim>\<open>d.values()\<close>.
\<close>

definition dict_get :: "('k \<times> 'v) list \<Rightarrow> 'k \<Rightarrow> 'v option" where
  "dict_get d k = map_of d k"

fun dict_set :: "('k \<times> 'v) list \<Rightarrow> 'k \<Rightarrow> 'v \<Rightarrow> ('k \<times> 'v) list" where
  "dict_set [] k v = [(k, v)]"
| "dict_set ((k', v') # d) k v =
     (if k' = k then (k, v) # d else (k', v') # dict_set d k v)"

fun dict_pop :: "('k \<times> 'v) list \<Rightarrow> 'k \<Rightarrow> ('k \<times> 'v) list" where
  "dict_pop [] k = []"
| "dict_pop ((k', v') # d) k = (if k' = k then d else (k', v') # dict_pop d k)"

definition dict_values :: "('k \<times> 'v) list \<Rightarrow> 'v list" where
  "dict_values d = map snd d"

text \<open>\<^verbatim>\<open>r.get(k)\<close> read as a Python value: an absent key and a stored \<^verbatim>\<open>null\<close> both give \<^verbatim>\<open>None\<close>.\<close>

definition get_or_none :: "pydict \<Rightarrow> string \<Rightarrow> json" where
  "get_or_none d k = (case dict_get d k of None \<Rightarrow> JNull | Some v \<Rightarrow> v)"

text \<open>Truth value of a Python object, as \<^verbatim>\<open>if\<close>, \<^verbatim>\<open>and\<close> and \<^verbatim>\<open>or\<close> test it.\<close>

fun truthy :: "json \<Rightarrow> bool" where
  "truthy JNull = False"
| "truthy (JBool b) = b"
| "truthy (JInt i) = (i \<noteq> 0)"
| "truthy (JFloat q) = (q \<noteq> 0)"
| "truthy (JStr s) = (s \<noteq> [])"
| "truthy (JList xs) = (xs \<noteq> [])"
| "truthy (JDict d) = (d \<noteq> [])"

text \<open>
  \<^verbatim>\<open>x == b\<close> for a Python object \<open>x\<close> and a \<^verbatim>\<open>bool\<close> \<open>b\<close>: \<^verbatim>\<open>bool\<close> is a subtype of
  \<^verbatim>\<open>int\<close>, so \<^verbatim>\<open>True == 1\<close> and \<^verbatim>\<open>False == 0.0\<close> hold, and no other kind of JSON value
  is equal to a \<^verbatim>\<open>bool\<close>.
\<close>

fun py_eq_bool :: "json \<Rightarrow> bool \<Rightarrow> bool" where
  "py_eq_bool (JBool a) b = (a = b)"
| "py_eq_bool (JInt i) b = (i = (if b then 1 else 0))"
| "py_eq_bool (JFloat q) b = (q = (if b then 1 else 0))"
| "py_eq_bool JNull b = False"
| "py_eq_bool (JStr s) b = False"
| "py_eq_bool (JList xs) b = False"
| "py_eq_bool (JDict d) b = False"

text \<open>
  \<^verbatim>\<open>data[key] = v\<close> for a decoded JSON document \<open>data\<close>: only a \<^verbatim>\<open>dict\<close> accepts a string
  key (the updated \<^verbatim>\<open>dict\<close> is returned on the right); every other kind of value raises
  \<^verbatim>\<open>TypeError\<close>, whose text is returned on the left.
\<close>

definition no_item_assignment :: "string \<Rightarrow> string" where
  "no_item_assignment ty = [CHR 0x27] @ ty @ [CHR 0x27] @ '' object does not support item assignment''"

fun setitem :: "json \<Rightarrow> string \<Rightarrow> json \<Rightarrow> string + pydict" where
  "setitem (JDict d) k v = Inr (dict_set d k v)"
| "setitem (JList xs) k v = Inl ''list indices must be integers or slices, not str''"
| "setitem (JStr s) k v = Inl (no_item_assignment ''str'')"
| "setitem (JInt i) k v = Inl (no_item_assignment ''int'')"
| "setitem (JFloat q) k v = Inl (no_item_assignment ''float'')"
| "setitem (JBool b) k v = Inl (no_item_assignment ''bool'')"
| "setitem JNull k v = Inl (no_item_assignment ''NoneType'')"

subsection \<open>Strings\<close>

text \<open>
  Text is modelled as ASCII: \<open>str_lower\<close> is \<^verbatim>\<open>str.lower\<close> on the letters A to Z and leaves
  every other character alone, \<open>is_space\<close> is the ASCII part of \<^verbatim>\<open>str.isspace\<close>
  (tab, line feed, vertical tab, form feed, carriage return, the four separators
  0x1c to 0x1f and the space), \<open>str_split\<close> is \<^verbatim>\<open>str.split()\<close> with no argument (runs of
  white space separate the words, no empty word is produced), \<open>str_strip\<close> is
  \<^verbatim>\<open>str.strip()\<close> and \<open>contains text w\<close> is Python's substring test \<^verbatim>\<open>w in text\<close>.
\<close>

definition lower_char :: "char \<Rightarrow> char" where
  "lower_char c =
     (case map_of (zip ''ABCDEFGHIJKLMNOPQRSTUVWXYZ'' ''abcdefghijklmnopqrstuvwxyz'') c of
        None \<Rightarrow> c
      | Some l \<Rightarrow> l)"

definition str_lower :: "string \<Rightarrow> string" where
  "str_lower s = map lower_char s"

definition is_space :: "char \<Rightarrow> bool" where
  "is_space c =
     (let n = (of_char c :: nat) in (9 \<le> n \<and> n \<le> 13) \<or> (28 \<le> n \<and> n \<le> 32))"

fun split_from :: "string \<Rightarrow> string \<Rightarrow> string list" where
  "split_from cur [] = (if cur = [] then [] else [cur])"
| "split_from cur (c # cs) =
     (if is_space c
      then (if cur = [] then split_from [] cs else cur # split_from [] cs)
      else split_from (cur @ [c]) cs)"

definition str_split :: "string \<Rightarrow> string list" where
  "str_split s = split_from [] s"

definition str_strip :: "string \<Rightarrow> string" where
  "str_strip s = rev (dropWhile is_space (rev (dropWhile is_space s)))"

fun starts_with :: "string \<Rightarrow> string \<Rightarrow> bool" where
  "starts_with text [] = True"
| "starts_with [] (c # w) = False"
| "starts_with (d # text) (c # w) = (d = c \<and> starts_with text w)"

fun contains :: "string \<Rightarrow> string \<Rightarrow> bool" where
  "contains [] w = (w = [])"
| "contains (d # text) w = (starts_with (d # text) w \<or> contains text w)"

text \<open>Decimal text of a natural number, as an f-string prints it.\<close>

fun str_nat :: "nat \<Rightarrow> string" where
  "str_nat n =
     (if n < 10 then [''0123456789'' ! n]
      else str_nat (n div 10) @ [''0123456789'' ! (n mod 10)])"

declare str_nat.simps [simp del]

section \<open>The data model\<close>

text \<open>
  A capability (a \<^emph>\<open>tool\<close>) is a Python \<^verbatim>\<open>dict\<close> in the source. The pipeline reads the
  keys below, each of which may be absent (\<open>None\<close>); \<open>other\<close> holds the remaining keys
  (such as \<^verbatim>\<open>parameters\<close>), which the pipeline only carries along. The time stamp
  \<open>updated_at\<close> is the clock reading in microseconds; its ISO text is a rendering of that
  number and is not modelled.
\<close>

record test_case =
  input :: "pydict option"
  expect_success :: "bool option"
  label :: "string option"

record tool =
  name :: "string option"
  func_name :: "string option"
  code :: "string option"
  description :: "string option"
  test_cases :: "test_case list option"
  updated_at :: "nat option"
  other :: pydict

text \<open>The \<^verbatim>\<open>dict\<close> with no key, \<^verbatim>\<open>{}\<close>.\<close>

definition empty_tool :: tool where
  "empty_tool = \<lparr>name = None, func_name = None, code = None, description = None,
                  test_cases = None, updated_at = None, other = []\<rparr>"

text \<open>
  The files of the store: \<open>ToolFile n\<close> is \<^verbatim>\<open><tools_dir>/<n>.json\<close> and
  \<open>ArchiveFile n s\<close> is \<^verbatim>\<open><archive_dir>/<n>_<YYYYmmdd_HHMMSS>.json\<close> for the second \<open>s\<close>
  of the clock. The exceptions that the pipeline can raise: a missing key of a \<^verbatim>\<open>dict\<close>,
  and a file that could not be written.
\<close>

datatype path = ToolFile string | ArchiveFile string nat

datatype py_error = KeyError string | OSError path

section \<open>The execution engine (\<^verbatim>\<open>core/executor.py\<close>)\<close>

text \<open>
  \<^verbatim>\<open>Executor.__init__\<close> keeps the deadline in seconds and the interpreter's path.
\<close>

record executor =
  timeout :: nat
  python :: string

text \<open>
  \<^verbatim>\<open>_build_runner\<close> fills a fixed script template with the source text, the name of the
  entry point and the keyword arguments; the script is modelled by these three parts.
\<close>

datatype runner = Runner string string pydict

definition build_runner :: "string \<Rightarrow> string \<Rightarrow> pydict \<Rightarrow> runner" where
  "build_runner code' func_name' kwargs = Runner code' func_name' kwargs"

text \<open>
  What \<^verbatim>\<open>subprocess.run\<close> did: the child ended and left its standard output and
  standard error, the deadline expired (\<^verbatim>\<open>TimeoutExpired\<close>), or another exception was
  raised with the given text. \<open>elapsed\<close> is the clock difference read right after the
  child ended or timed out, \<open>elapsed_late\<close> the one read in the general exception
  handler. The operating system is a parameter: an engine maps the state of the world
  and a script to what happened and the next state of the world. A host is the world
  together with the list of scripts handed to \<^verbatim>\<open>_run\<close> so far, which counts the
  invocations of the engine.
\<close>

datatype proc = Completed string string | TimeoutExpired | Failed string

record child =
  outcome :: proc
  elapsed :: rat
  elapsed_late :: rat

type_synonym 'w engine = "'w \<Rightarrow> executor \<Rightarrow> runner \<Rightarrow> child \<times> 'w"

record 'w host =
  world :: 'w
  spawned :: "runner list"

text \<open>
  \<^verbatim>\<open>Executor._run\<close>. \<open>loads\<close> is \<^verbatim>\<open>json.loads\<close>, with \<open>None\<close> for \<^verbatim>\<open>JSONDecodeError\<close>.
  Creating and removing the temporary file is assumed to succeed.
\<close>

definition failure :: "string \<Rightarrow> rat \<Rightarrow> pydict" where
  "failure msg t =
     [(''ok'', JBool False), (''output'', JNull), (''error'', JStr msg), (''elapsed'', JFloat t)]"

definition run ::
  "'w engine \<Rightarrow> (string \<Rightarrow> json option) \<Rightarrow> executor \<Rightarrow> 'w host \<Rightarrow> runner \<Rightarrow> pydict \<times> 'w host" where
  "run engine loads ex h script =
     (let (c, w) = engine (world h) ex script;
          h' = \<lparr>world = w, spawned = spawned h @ [script]\<rparr>
      in (case outcome c of
            Completed out err \<Rightarrow>
              (let stdout = str_strip out in
               if stdout \<noteq> [] then
                 (case loads stdout of
                    Some data \<Rightarrow>
                      (case setitem data ''elapsed'' (JFloat (elapsed c)) of
                         Inr data' \<Rightarrow> data'
                       | Inl msg \<Rightarrow> failure msg (elapsed_late c))
                  | None \<Rightarrow>
                      [(''ok'', JBool True), (''output'', JStr stdout),
                       (''elapsed'', JFloat (elapsed c)), (''error'', JNull)])
               else
                 (let stderr = str_strip err in
                  failure (if stderr \<noteq> [] then stderr else ''no output'') (elapsed c)))
          | TimeoutExpired \<Rightarrow>
              failure (''timed out after '' @ str_nat (timeout ex) @ ''s'') (elapsed c)
          | Failed msg \<Rightarrow> failure msg (elapsed_late c),
          h'))"

text \<open>\<^verbatim>\<open>Executor.run_code\<close>: \<^verbatim>\<open>kwargs or {}\<close>.\<close>

definition run_code ::
  "'w engine \<Rightarrow> (string \<Rightarrow> json option) \<Rightarrow> executor \<Rightarrow> 'w host \<Rightarrow>
     string \<Rightarrow> string \<Rightarrow> pydict option \<Rightarrow> pydict \<times> 'w host" where
  "run_code engine loads ex h code' func_name' kwargs =
     run engine loads ex h
       (build_runner code' func_name' (case kwargs of None \<Rightarrow> [] | Some d \<Rightarrow> d))"

text \<open>
  \<^verbatim>\<open>Executor.run_tool\<close>: a tool without source text or entry point is answered at once;
  otherwise the arguments are \<^verbatim>\<open>kwargs or ({"task": task} if task else {})\<close>.
\<close>

definition run_tool ::
  "'w engine \<Rightarrow> (string \<Rightarrow> json option) \<Rightarrow> executor \<Rightarrow> 'w host \<Rightarrow>
     tool \<Rightarrow> string \<Rightarrow> pydict option \<Rightarrow> pydict \<times> 'w host" where
  "run_tool engine loads ex h t task kwargs =
     (let code' = (case code t of None \<Rightarrow> [] | Some s \<Rightarrow> s);
          func_name' = (case func_name t of None \<Rightarrow> [] | Some s \<Rightarrow> s)
      in if code' = [] \<or> func_name' = [] then
           ([(''ok'', JBool False), (''output'', JNull),
             (''error'', JStr ''tool missing code or func_name'')], h)
         else
           (let task_args = (if task \<noteq> [] then [(''task'', JStr task)] else []);
                call_args = (case kwargs of
                               None \<Rightarrow> task_args
                             | Some d \<Rightarrow> if d \<noteq> [] then d else task_args)
            in run engine loads ex h (build_runner code' func_name' call_args)))"

text \<open>
  \<^verbatim>\<open>_syntax_check\<close>. \<open>compile\<close> is Python's \<^verbatim>\<open>compile(code, "<generated>", "exec")\<close>:
  \<open>None\<close> when the source compiles, \<open>Some e\<close> when it raises \<^verbatim>\<open>SyntaxError\<close> with text \<open>e\<close>
  (the only exception that \<^verbatim>\<open>_syntax_check\<close> catches).
\<close>

definition syntax_check :: "(string \<Rightarrow> string option) \<Rightarrow> string \<Rightarrow> bool \<times> string option" where
  "syntax_check compile code' =
     (case compile code' of None \<Rightarrow> (True, None) | Some e \<Rightarrow> (False, Some e))"

section \<open>The gate: \<^verbatim>\<open>Executor.test_tool\<close>\<close>

text \<open>
  One row of the evaluation and the verdict. The verdict of the syntax failure and of
  the empty test suite carries no \<^verbatim>\<open>passed_count\<close> and no \<^verbatim>\<open>total_count\<close> key, hence
  the options.
\<close>

record test_outcome =
  tc_label :: string
  tc_passed :: bool
  expected_success :: bool
  actual_success :: json
  tc_output :: json
  tc_error :: json
  tc_elapsed :: json

record verdict =
  passed :: bool
  pass_rate :: rat
  passed_count :: "nat option"
  total_count :: "nat option"
  results :: "test_outcome list"
  error :: "string option"

text \<open>
  The value \<^verbatim>\<open>actual_ok\<close> of one test case, from the engine's result \<open>r\<close> and the case's
  \<^verbatim>\<open>expect_success\<close>:
  \<^verbatim>\<open>actual_ok = r["ok"] and (r.get("output") is not None or expect_ok is False)\<close>,
  replaced by \<^verbatim>\<open>r["output"].get("success", True)\<close> when \<^verbatim>\<open>r["ok"]\<close> is true and the output
  is a \<^verbatim>\<open>dict\<close>. \<^verbatim>\<open>r["ok"]\<close> raises \<^verbatim>\<open>KeyError\<close> when the child printed a JSON object
  without that key.
\<close>

definition actual_ok :: "pydict \<Rightarrow> bool \<Rightarrow> py_error + json" where
  "actual_ok r expect_ok =
     (case dict_get r ''ok'' of
        None \<Rightarrow> Inl (KeyError ''ok'')
      | Some ok \<Rightarrow>
          (let a = (if truthy ok then JBool (get_or_none r ''output'' \<noteq> JNull \<or> \<not> expect_ok)
                    else ok)
           in Inr (if truthy ok
                   then (case get_or_none r ''output'' of
                           JDict d \<Rightarrow> (case dict_get d ''success'' of
                                         None \<Rightarrow> JBool True
                                       | Some s \<Rightarrow> s)
                         | _ \<Rightarrow> a)
                   else a)))"

text \<open>
  The loop over the test cases, in declared order, with the rows and the count of hits
  collected so far. A \<^verbatim>\<open>KeyError\<close> ends it.
\<close>

fun test_loop ::
  "'w engine \<Rightarrow> (string \<Rightarrow> json option) \<Rightarrow> executor \<Rightarrow> string \<Rightarrow> string \<Rightarrow>
     test_case list \<Rightarrow> test_outcome list \<times> nat \<Rightarrow> 'w host \<Rightarrow>
     (py_error + test_outcome list \<times> nat) \<times> 'w host" where
  "test_loop engine loads ex code' func_name' [] acc h = (Inr acc, h)"
| "test_loop engine loads ex code' func_name' (tc # tcs) (rows, hits) h =
     (let inp = (case input tc of None \<Rightarrow> [] | Some d \<Rightarrow> d);
          expect_ok = (case expect_success tc of None \<Rightarrow> True | Some b \<Rightarrow> b);
          label' = (case label tc of None \<Rightarrow> ''unnamed'' | Some l \<Rightarrow> l);
          (r, h') = run_code engine loads ex h code' func_name' (Some inp)
      in case actual_ok r expect_ok of
           Inl e \<Rightarrow> (Inl e, h')
         | Inr a \<Rightarrow>
             (let hit = py_eq_bool a expect_ok;
                  row = \<lparr>tc_label = label', tc_passed = hit, expected_success = expect_ok,
                         actual_success = a, tc_output = get_or_none r ''output'',
                         tc_error = get_or_none r ''error'',
                         tc_elapsed = get_or_none r ''elapsed''\<rparr>
              in test_loop engine loads ex code' func_name' tcs
                   (rows @ [row], if hit then hits + 1 else hits) h'))"

text \<open>
  \<^verbatim>\<open>Executor.test_tool\<close>. The pass rate \<^verbatim>\<open>passed / total\<close> is the exact quotient; the
  source compares its floating-point rounding with the literal \<^verbatim>\<open>0.75\<close>, which is exactly
  representable, so both comparisons agree for every suite of fewer than \<open>2^52\<close> cases.
\<close>

definition test_tool ::
  "(string \<Rightarrow> string option) \<Rightarrow> 'w engine \<Rightarrow> (string \<Rightarrow> json option) \<Rightarrow> executor \<Rightarrow>
     tool \<Rightarrow> 'w host \<Rightarrow> (py_error + verdict) \<times> 'w host" where
  "test_tool compile engine loads ex t h =
     (let code' = (case code t of None \<Rightarrow> [] | Some s \<Rightarrow> s);
          func_name' = (case func_name t of None \<Rightarrow> [] | Some s \<Rightarrow> s);
          tcs = (case test_cases t of None \<Rightarrow> [] | Some l \<Rightarrow> l);
          (ok, err) = syntax_check compile code'
      in if \<not> ok then
           (Inr \<lparr>passed = False, pass_rate = 0, passed_count = None, total_count = None,
                 results = [],
                 error = Some (''SyntaxError: '' @ (case err of None \<Rightarrow> ''None'' | Some e \<Rightarrow> e))\<rparr>,
            h)
         else if tcs = [] then
           (Inr \<lparr>passed = True, pass_rate = 1, passed_count = None, total_count = None,
                 results = [], error = None\<rparr>, h)
         else
           (case test_loop engine loads ex code' func_name' tcs ([], 0) h of
              (Inl e, h') \<Rightarrow> (Inl e, h')
            | (Inr (rows, hits), h') \<Rightarrow>
                (let total = length tcs;
                     rate = (of_nat hits / of_nat total :: rat)
                 in (Inr \<lparr>passed = (3 / 4 \<le> rate), pass_rate = rate,
                          passed_count = Some hits, total_count = Some total,
                          results = rows, error = None\<rparr>, h'))))"

section \<open>The capability store (\<^verbatim>\<open>core/memory.py\<close>)\<close>

text \<open>
  The tools are Python \<^verbatim>\<open>dict\<close> objects, which \<^verbatim>\<open>save_tool\<close> changes in place and keeps
  by reference. \<open>objects\<close> is the heap of these objects: the \<^verbatim>\<open>dict\<close> that lives at each
  address (an address that holds nothing of interest holds \<^verbatim>\<open>{}\<close>). \<open>tools\<close> is the
  dictionary \<^verbatim>\<open>self._tools\<close>, from names to the addresses of the stored objects.
  \<open>tools_dir\<close> is the directory of the files \<^verbatim>\<open><name>.json\<close>, keyed by \<open>name\<close>, and
  \<open>archive_dir\<close> the directory of the files \<^verbatim>\<open><name>_<YYYYmmdd_HHMMSS>.json\<close>, keyed by
  the name and the second of the clock; a file holds the tool as it read when it was
  written, and writing a file that exists overwrites it.

  The file system is a parameter \<open>fs\<close>: \<open>fs p\<close> says whether the file \<open>p\<close> can be
  written. A write that fails raises and leaves the directory as it was. Removing a
  file is assumed to succeed, and the child processes of the engine are assumed to
  leave both directories alone (the world of the engine and the store are separate
  parts of the state). The experience log is no part of the model.

  The operations that read the store (\<open>get_tool\<close>, \<open>all_tools\<close>, \<open>best_tool_for\<close>)
  are modelled by the content of the objects they return, read at the time of the call.
\<close>

type_synonym addr = nat

record memory =
  objects :: "addr \<Rightarrow> tool"
  tools :: "(string \<times> addr) list"
  tools_dir :: "(string \<times> tool) list"
  archive_dir :: "((string \<times> nat) \<times> tool) list"

text \<open>
  \<^verbatim>\<open>_short_hash\<close>: the first ten characters of the hexadecimal MD5 digest; the digest
  function \<open>md5_hex\<close> (\<^verbatim>\<open>hashlib.md5(s.encode()).hexdigest()\<close>) is a parameter, and so is
  \<open>str_of\<close>, Python's \<^verbatim>\<open>str\<close> of the tool's \<^verbatim>\<open>dict\<close>.
\<close>

definition short_hash :: "(string \<Rightarrow> string) \<Rightarrow> string \<Rightarrow> string" where
  "short_hash md5_hex s = take 10 (md5_hex s)"

text \<open>
  \<^verbatim>\<open>Memory.save_tool\<close>, for the tool object at address \<open>a\<close>: the name and the time
  stamp are written into the object, then the file is written, then the object is
  registered under the name. When the file cannot be written the exception leaves the
  object changed and the dictionary and the directory as they were.
\<close>

definition save_tool ::
  "(path \<Rightarrow> bool) \<Rightarrow> (string \<Rightarrow> string) \<Rightarrow> (tool \<Rightarrow> string) \<Rightarrow> nat \<Rightarrow> memory \<Rightarrow> addr \<Rightarrow>
     py_error option \<times> memory" where
  "save_tool fs md5_hex str_of now m a =
     (let t = objects m a;
          name' = (case name t of
                     None \<Rightarrow> ''tool_'' @ short_hash md5_hex (str_of t)
                   | Some n \<Rightarrow> n);
          t' = t\<lparr>name := Some name', updated_at := Some now\<rparr>;
          m1 = m\<lparr>objects := (objects m)(a := t')\<rparr>
      in if fs (ToolFile name')
         then (None, m1\<lparr>tools_dir := dict_set (tools_dir m) name' t',
                         tools := dict_set (tools m) name' a\<rparr>)
         else (Some (OSError (ToolFile name')), m1))"

definition get_tool :: "memory \<Rightarrow> string \<Rightarrow> tool option" where
  "get_tool m n = map_option (objects m) (dict_get (tools m) n)"

definition all_tools :: "memory \<Rightarrow> tool list" where
  "all_tools m = map (objects m) (dict_values (tools m))"

text \<open>\<^verbatim>\<open>Memory.archive_tool\<close> writes the tool, as it reads, to a file of the archive.\<close>

definition archive_tool :: "(path \<Rightarrow> bool) \<Rightarrow> nat \<Rightarrow> memory \<Rightarrow> tool \<Rightarrow> py_error option \<times> memory" where
  "archive_tool fs now m t =
     (let name' = (case name t of None \<Rightarrow> ''unknown'' | Some n \<Rightarrow> n);
          ts = now div 1000000
      in if fs (ArchiveFile name' ts)
         then (None, m\<lparr>archive_dir := dict_set (archive_dir m) (name', ts) t\<rparr>)
         else (Some (OSError (ArchiveFile name' ts)), m))"

text \<open>
  \<^verbatim>\<open>Memory.delete_tool\<close>: the name is popped from the dictionary, the tool is archived,
  then its file is removed; when the archive cannot be written the name is gone from
  the dictionary and the file stays.
\<close>

definition delete_tool :: "(path \<Rightarrow> bool) \<Rightarrow> nat \<Rightarrow> memory \<Rightarrow> string \<Rightarrow> py_error option \<times> memory" where
  "delete_tool fs now m n =
     (case dict_get (tools m) n of
        None \<Rightarrow> (None, m)
      | Some a \<Rightarrow>
          (case archive_tool fs now (m\<lparr>tools := dict_pop (tools m) n\<rparr>) (objects m a) of
             (Some e, m1) \<Rightarrow> (Some e, m1)
           | (None, m1) \<Rightarrow> (None, m1\<lparr>tools_dir := dict_pop (tools_dir m1) n\<rparr>)))"

text \<open>
  \<^verbatim>\<open>_load_tools\<close>, run by \<^verbatim>\<open>Memory.__init__\<close>: every readable file of the directory, in
  the order the directory lists them, becomes a new object, stored under its \<^verbatim>\<open>name\<close>
  key or, without one, under the file's stem. \<open>load_from i\<close> gives the objects the
  addresses from \<open>i\<close> on; \<open>loaded files a\<close> is the store right after the start, for the
  tool files \<open>files\<close> and the archive \<open>a\<close>.
\<close>

fun load_from :: "addr \<Rightarrow> (string \<times> tool) list \<Rightarrow> (string \<times> addr) list \<Rightarrow> (string \<times> addr) list" where
  "load_from i [] acc = acc"
| "load_from i ((stem, t) # files) acc =
     load_from (Suc i) files (dict_set acc (case name t of None \<Rightarrow> stem | Some n \<Rightarrow> n) i)"

definition load_tools :: "(string \<times> tool) list \<Rightarrow> (string \<times> addr) list" where
  "load_tools files = load_from 0 files []"

definition loaded :: "(string \<times> tool) list \<Rightarrow> ((string \<times> nat) \<times> tool) list \<Rightarrow> memory" where
  "loaded files a =
     \<lparr>objects = (\<lambda>i. if i < length files then snd (files ! i) else empty_tool),
      tools = load_tools files, tools_dir = files, archive_dir = a\<rparr>"

subsection \<open>The relevance selector: \<^verbatim>\<open>Memory.best_tool_for\<close>\<close>

text \<open>
  \<^verbatim>\<open>text = f"{tool.get('name','')} {tool.get('description','')}".lower()\<close> and
  \<^verbatim>\<open>score = sum(1 for w in words if w in text)\<close>, where \<open>words\<close> is the set of the task's
  lower-case words (a list without repetitions here).
\<close>

definition tool_text :: "tool \<Rightarrow> string" where
  "tool_text t =
     str_lower ((case name t of None \<Rightarrow> [] | Some n \<Rightarrow> n) @ '' '' @
                (case description t of None \<Rightarrow> [] | Some d \<Rightarrow> d))"

definition score :: "string list \<Rightarrow> tool \<Rightarrow> nat" where
  "score words t = length (filter (contains (tool_text t)) words)"

fun best_loop :: "string list \<Rightarrow> tool list \<Rightarrow> tool option \<times> nat \<Rightarrow> tool option \<times> nat" where
  "best_loop words [] acc = acc"
| "best_loop words (t # ts) (best, best_score) =
     (if score words t > best_score
      then best_loop words ts (Some t, score words t)
      else best_loop words ts (best, best_score))"

definition best_tool_for :: "memory \<Rightarrow> string \<Rightarrow> tool option" where
  "best_tool_for m task =
     (let words = remdups (str_split (str_lower task));
          (best, best_score) = best_loop words (all_tools m) (None, 0)
      in if best_score \<ge> 2 then best else None)"

section \<open>The integrator (\<^verbatim>\<open>core/integrator.py\<close>)\<close>

text \<open>
  \<^verbatim>\<open>Integrator.__init__\<close> keeps the configured pass threshold. The answer of
  \<^verbatim>\<open>integrate\<close> is a \<^verbatim>\<open>dict\<close> with the keys below; \<^verbatim>\<open>force_integrate\<close> answers with
  \<^verbatim>\<open>pass_rate\<close> \<open>None\<close>.
\<close>

record integrator =
  threshold :: rat

record integration =
  ok :: bool
  tool_name :: string
  i_pass_rate :: "rat option"
  test_results :: "test_outcome list"
  i_error :: "string option"

text \<open>
  \<^verbatim>\<open>Integrator.integrate\<close>, for the candidate object at address \<open>a\<close>. The exception of
  \<^verbatim>\<open>test_tool\<close> passes through, and so does the one of \<^verbatim>\<open>save_tool\<close>. On a passed
  verdict the tool is saved first; the log line then reads
  \<^verbatim>\<open>test_result['passed_count']\<close>, which raises \<^verbatim>\<open>KeyError\<close> for the verdict of an empty
  test suite. The function returns the answer (or the exception), the store and the
  host.
\<close>

definition integrate ::
  "(string \<Rightarrow> string option) \<Rightarrow> 'w engine \<Rightarrow> (string \<Rightarrow> json option) \<Rightarrow> executor \<Rightarrow>
     (path \<Rightarrow> bool) \<Rightarrow> (string \<Rightarrow> string) \<Rightarrow> (tool \<Rightarrow> string) \<Rightarrow> integrator \<Rightarrow> nat \<Rightarrow>
     memory \<Rightarrow> addr \<Rightarrow> 'w host \<Rightarrow> (py_error + integration) \<times> memory \<times> 'w host" where
  "integrate compile engine loads ex fs md5_hex str_of ig now m a h =
     (let t = objects m a;
          name' = (case name t of None \<Rightarrow> ''unnamed'' | Some n \<Rightarrow> n)
      in case test_tool compile engine loads ex t h of
           (Inl e, h') \<Rightarrow> (Inl e, m, h')
         | (Inr test_result, h') \<Rightarrow>
             if passed test_result then
               (case save_tool fs md5_hex str_of now m a of
                  (Some e, m') \<Rightarrow> (Inl e, m', h')
                | (None, m') \<Rightarrow>
                    (case (passed_count test_result, total_count test_result) of
                       (Some pc, Some tc) \<Rightarrow>
                         (Inr \<lparr>ok = True, tool_name = name',
                               i_pass_rate = Some (pass_rate test_result),
                               test_results = results test_result, i_error = None\<rparr>, m', h')
                     | (None, _) \<Rightarrow> (Inl (KeyError ''passed_count''), m', h')
                     | (Some pc, None) \<Rightarrow> (Inl (KeyError ''total_count''), m', h')))
             else
               (Inr \<lparr>ok = False, tool_name = name',
                     i_pass_rate = Some (pass_rate test_result),
                     test_results = results test_result,
                     i_error = Some (case error test_result of
                                       None \<Rightarrow> ''did not meet pass threshold''
                                     | Some e \<Rightarrow> if e \<noteq> [] then e
                                                else ''did not meet pass threshold'')\<rparr>,
                m, h'))"

text \<open>\<^verbatim>\<open>Integrator.force_integrate\<close>: no test, the tool is saved.\<close>

definition force_integrate ::
  "(path \<Rightarrow> bool) \<Rightarrow> (string \<Rightarrow> string) \<Rightarrow> (tool \<Rightarrow> string) \<Rightarrow> nat \<Rightarrow> memory \<Rightarrow> addr \<Rightarrow>
     (py_error + integration) \<times> memory" where
  "force_integrate fs md5_hex str_of now m a =
     (let name' = (case name (objects m a) of None \<Rightarrow> ''unnamed'' | Some n \<Rightarrow> n)
      in case save_tool fs md5_hex str_of now m a of
           (Some e, m') \<Rightarrow> (Inl e, m')
         | (None, m') \<Rightarrow>
             (Inr \<lparr>ok = True, tool_name = name', i_pass_rate = None, test_results = [],
                   i_error = None\<rparr>, m'))"

text \<open>
  \<^verbatim>\<open>Integrator.upgrade\<close>: the tool stored under \<open>tool_name'\<close>, when there is one and its
  \<^verbatim>\<open>dict\<close> is not empty, is archived (clock reading \<open>now_a\<close>), then the new tool, the
  object at address \<open>a\<close>, goes through \<open>integrate\<close> (clock reading \<open>now\<close>).
\<close>

definition tool_nonempty :: "tool \<Rightarrow> bool" where
  "tool_nonempty t \<longleftrightarrow>
     name t \<noteq> None \<or> func_name t \<noteq> None \<or> code t \<noteq> None \<or> description t \<noteq> None \<or>
     test_cases t \<noteq> None \<or> updated_at t \<noteq> None \<or> other t \<noteq> []"

definition upgrade ::
  "(string \<Rightarrow> string option) \<Rightarrow> 'w engine \<Rightarrow> (string \<Rightarrow> json option) \<Rightarrow> executor \<Rightarrow>
     (path \<Rightarrow> bool) \<Rightarrow> (string \<Rightarrow> string) \<Rightarrow> (tool \<Rightarrow> string) \<Rightarrow> integrator \<Rightarrow> nat \<Rightarrow> nat \<Rightarrow>
     memory \<Rightarrow> string \<Rightarrow> addr \<Rightarrow> 'w host \<Rightarrow> (py_error + integration) \<times> memory \<times> 'w host" where
  "upgrade compile engine loads ex fs md5_hex str_of ig now_a now m tool_name' a h =
     (case (case get_tool m tool_name' of
              None \<Rightarrow> (None, m)
            | Some old \<Rightarrow> if tool_nonempty old then archive_tool fs now_a m old else (None, m)) of
        (Some e, m1) \<Rightarrow> (Inl e, m1, h)
      | (None, m1) \<Rightarrow> integrate compile engine loads ex fs md5_hex str_of ig now m1 a h)"

section \<open>The invariant of the store\<close>

text \<open>Every key of \<^verbatim>\<open>self._tools\<close> is the \<^verbatim>\<open>name\<close> of the tool stored under it.\<close>

definition store_inv :: "memory \<Rightarrow> bool" where
  "store_inv m = list_all (\<lambda>(k, a). name (objects m a) = Some k) (tools m)"

section \<open>The scorer of the specification\<close>

text \<open>
  The specification scores a capability by \<open>|words \<inter> tokens(name \<frown> description)|\<close>: the
  number of task words that are themselves tokens of the capability's text. The text is
  taken lower-cased and with the blank between name and description, as the source
  builds it, so that the two scorers differ in the membership test only.
\<close>

definition spec_score :: "string list \<Rightarrow> tool \<Rightarrow> nat" where
  "spec_score words t = length (filter (\<lambda>w. w \<in> set (str_split (tool_text t))) words)"

section \<open>Environments for concrete runs\<close>

text \<open>
  The operating system, the file system, \<^verbatim>\<open>json.loads\<close>, \<^verbatim>\<open>compile\<close>, \<^verbatim>\<open>hashlib.md5\<close> and
  \<^verbatim>\<open>str\<close> are parameters of the model. To run the model on concrete inputs they are
  instantiated as follows; each stand-in is applied below only to inputs on which it
  agrees with what it stands for.
  \<^item> \<open>scripted\<close>: the world is the list of what the coming child processes will do;
    each invocation takes the head of the list.
  \<^item> \<open>loads_scalar\<close>: \<^verbatim>\<open>json.loads\<close> on the scalar literals \<^verbatim>\<open>null\<close>, \<^verbatim>\<open>true\<close>, \<^verbatim>\<open>false\<close>
    and the unsigned decimal integers; every other text is undecodable for it.
  \<^item> \<open>compile_parens\<close>: rejects a source text whose round brackets do not balance in
    number, with CPython's message for an unclosed bracket, and accepts every other.
  \<^item> \<open>flat_fs\<close>: two directories without subdirectories on a file system whose file
    names have at most 255 bytes: a file can be written when its name has no slash and
    is not too long (\<^verbatim>\<open>.json\<close> has 5 bytes, \<^verbatim>\<open>_YYYYmmdd_HHMMSS.json\<close> has 21).
  \<^item> \<open>md5_table\<close>: the MD5 digests of the text \<^verbatim>\<open>{}\<close> and of the empty text.
  \<^item> \<open>str_empty\<close>: \<^verbatim>\<open>str\<close> of the \<^verbatim>\<open>dict\<close> \<^verbatim>\<open>{}\<close>; it is used for a tool with a name,
    where \<open>save_tool\<close> computes the text and drops it, and for \<open>empty_tool\<close>.
\<close>

definition scripted :: "child list engine" where
  "scripted w ex script =
     (case w of
        [] \<Rightarrow> (\<lparr>outcome = Failed ''no child'', elapsed = 0, elapsed_late = 0\<rparr>, [])
      | c # cs \<Rightarrow> (c, cs))"

definition is_digit :: "char \<Rightarrow> bool" where
  "is_digit c = (let n = (of_char c :: nat) in 48 \<le> n \<and> n \<le> 57)"

definition loads_scalar :: "string \<Rightarrow> json option" where
  "loads_scalar s =
     (if s = ''null'' then Some JNull
      else if s = ''true'' then Some (JBool True)
      else if s = ''false'' then Some (JBool False)
      else if s \<noteq> [] \<and> list_all is_digit s \<and> (hd s \<noteq> CHR ''0'' \<or> length s = 1)
      then Some (JInt (int (foldl (\<lambda>a c. 10 * a + (of_char c - 48)) 0 s)))
      else None)"

definition compile_parens :: "string \<Rightarrow> string option" where
  "compile_parens s =
     (if length (filter (\<lambda>c. c = CHR ''('') s) = length (filter (\<lambda>c. c = CHR '')'') s)
      then None
      else Some ([CHR 0x27] @ ''('' @ [CHR 0x27] @ '' was never closed (<generated>, line 1)''))"

definition flat_fs :: "path \<Rightarrow> bool" where
  "flat_fs p =
     (case p of
        ToolFile n \<Rightarrow> CHR ''/'' \<notin> set n \<and> length n + 5 \<le> 255
      | ArchiveFile n s \<Rightarrow> CHR ''/'' \<notin> set n \<and> length n + 21 \<le> 255)"

definition md5_table :: "string \<Rightarrow> string" where
  "md5_table s =
     (if s = ''{}'' then ''99914b932bd37a50b983c5e7c90ae93b''
      else if s = [] then ''d41d8cd98f00b204e9800998ecf8427e''
      else [])"

definition str_empty :: "tool \<Rightarrow> string" where
  "str_empty t = ''{}''"

definition executor0 :: executor where
  "executor0 = \<lparr>timeout = 30, python = ''python3''\<rparr>"

definition said :: "string \<Rightarrow> child" where
  "said out = \<lparr>outcome = Completed out [], elapsed = 1 / 10, elapsed_late = 2 / 10\<rparr>"

definition case_ok :: "string \<Rightarrow> test_case" where
  "case_ok l = \<lparr>input = Some [], expect_success = Some True, label = Some l\<rparr>"

text \<open>
  The store with nothing in it, and a \<^verbatim>\<open>dict\<close> that a caller creates at an address.
\<close>

definition empty_memory :: memory where
  "empty_memory = \<lparr>objects = (\<lambda>a. empty_tool), tools = [], tools_dir = [], archive_dir = []\<rparr>"

definition new_dict :: "memory \<Rightarrow> addr \<Rightarrow> tool \<Rightarrow> memory" where
  "new_dict m a t = m\<lparr>objects := (objects m)(a := t)\<rparr>"

text \<open>
  Tools for the concrete runs: \<open>adder\<close> is the candidate of the specification's
  end-to-end example; the source of \<open>broken\<close> has an unclosed bracket (it is the one of
  the repository's test \<^verbatim>\<open>test_syntax_check_fail\<close>); \<open>adder_v1\<close> is an earlier version
  of \<open>adder\<close>, saved at time 1; \<open>store_v1\<close> is the store that holds \<open>adder_v1\<close> (the
  object at address 0) under the name \<^verbatim>\<open>adder\<close>, together with the candidate \<open>adder\<close>
  that a caller has created at address 1; \<open>half_tool\<close> has four test cases that all
  expect success; the name of \<open>slash_tool\<close> has a slash in it.
\<close>

definition adder :: tool where
  "adder = \<lparr>name = Some ''adder'', func_name = Some ''add'',
             code = Some ''def add(a, b): return a + b'',
             description = Some ''add two numbers'',
             test_cases = Some [\<lparr>input = Some [(''a'', JInt 2), (''b'', JInt 3)],
                                 expect_success = Some True, label = Some ''basic add''\<rparr>],
             updated_at = None, other = []\<rparr>"

definition broken :: tool where
  "broken = \<lparr>name = Some ''broken'', func_name = Some ''broken'',
              code = Some (''def broken('' @ [CHR 0x0A] @ ''    pass''),
              description = None,
              test_cases = Some [case_ok ''t1''],
              updated_at = None, other = []\<rparr>"

definition adder_v1 :: tool where
  "adder_v1 = adder\<lparr>code := Some ''def add(a, b): return a - b'', updated_at := Some 1\<rparr>"

definition store_v1 :: memory where
  "store_v1 = \<lparr>objects = (\<lambda>a. empty_tool)(0 := adder_v1, 1 := adder),
                tools = [(''adder'', 0)], tools_dir = [(''adder'', adder_v1)],
                archive_dir = []\<rparr>"

definition half_tool :: tool where
  "half_tool = \<lparr>name = Some ''half'', func_name = Some ''f'',
                 code = Some ''def f(**kw): pass'', description = None,
                 test_cases = Some [case_ok ''a'', case_ok ''b'', case_ok ''c'', case_ok ''d''],
                 updated_at = None, other = []\<rparr>"

definition slash_tool :: tool where
  "slash_tool = empty_tool\<lparr>name := Some ''net/fetch'', description := Some ''fetch a page''\<rparr>"

text \<open>
  Two integrations of the candidate at address 1 of \<open>store_v1\<close> in a row, at the times
  9 and 12; the child process of each prints the plain text \<^verbatim>\<open>done\<close>. The second call
  receives the store and the host that the first one left, and the same object.
\<close>

definition host_done2 :: "child list host" where
  "host_done2 = \<lparr>world = [said ''done'', said ''done''], spawned = []\<rparr>"

definition first_commit :: "(py_error + integration) \<times> memory \<times> child list host" where
  "first_commit =
     integrate compile_parens scripted loads_scalar executor0 flat_fs md5_table str_empty
       \<lparr>threshold = 3 / 4\<rparr> 9 store_v1 1 host_done2"

definition second_commit :: "(py_error + integration) \<times> memory \<times> child list host" where
  "second_commit =
     (case first_commit of
        (res1, m1, h1) \<Rightarrow>
          integrate compile_parens scripted loads_scalar executor0 flat_fs md5_table str_empty
            \<lparr>threshold = 3 / 4\<rparr> 12 m1 1 h1)"

text \<open>
  A host whose four coming child processes print \<^verbatim>\<open>done\<close>, nothing, \<^verbatim>\<open>done\<close>, nothing.
\<close>

definition host_half :: "child list host" where
  "host_half = \<lparr>world = [said ''done'', said '''', said ''done'', said ''''], spawned = []\<rparr>"

text \<open>
  Stores for the relevance selector. \<open>store_profiler\<close> holds one tool; \<open>store_csv\<close> is
  built by three calls of \<open>save_tool\<close>, at the times 1, 2 and 3, for three objects
  that a caller has created at the addresses 0, 1 and 2.
\<close>

definition profiler :: tool where
  "profiler = empty_tool\<lparr>name := Some ''profiler'', description := Some ''profile threads''\<rparr>"

definition store_profiler :: memory where
  "store_profiler = \<lparr>objects = (\<lambda>a. empty_tool)(0 := profiler),
                      tools = [(''profiler'', 0)], tools_dir = [], archive_dir = []\<rparr>"

definition json_parser :: tool where
  "json_parser =
     empty_tool\<lparr>name := Some ''json-parser'', description := Some ''parse JSON strings''\<rparr>"

definition csv_reader :: tool where
  "csv_reader = empty_tool\<lparr>name := Some ''csv-reader'', description := Some ''read CSV files''\<rparr>"

definition csv_loader :: tool where
  "csv_loader = empty_tool\<lparr>name := Some ''csv-loader'', description := Some ''load CSV files''\<rparr>"

definition store_csv :: memory where
  "store_csv =
     snd (save_tool flat_fs md5_table str_empty 3
       (snd (save_tool flat_fs md5_table str_empty 2
         (snd (save_tool flat_fs md5_table str_empty 1
            (new_dict (new_dict (new_dict empty_memory 0 json_parser) 1 csv_reader) 2 csv_loader)
            0))
         1))
       2)"

section \<open>Properties of dictionaries\<close>

lemma dict_get_set: "dict_get (dict_set d k v) k' = (if k' = k then Some v else dict_get d k')"
  by (induction d) (auto simp: dict_get_def)

lemma set_dict_set: "set (dict_set d k v) \<subseteq> insert (k, v) (set d)"
  by (induction d) (auto split: if_splits)

lemma set_dict_pop: "set (dict_pop d k) \<subseteq> set d"
  by (induction d) (auto split: if_splits)

lemma list_all_dict_set: "list_all P d \<Longrightarrow> P (k, v) \<Longrightarrow> list_all P (dict_set d k v)"
  using set_dict_set [of d k v] by (auto simp: list_all_iff)

lemma list_all_dict_pop: "list_all P d \<Longrightarrow> list_all P (dict_pop d k)"
  using set_dict_pop [of d k] by (auto simp: list_all_iff)

lemma dict_set_keys:
  "map fst (dict_set d k v) = (if k \<in> set (map fst d) then map fst d else map fst d @ [k])"
  by (induction d) (force+)

section \<open>The store keeps every tool under its name\<close>

text \<open>What \<open>save_tool\<close> does to each part of the store.\<close>

lemma save_tool_objects:
  "objects (snd (save_tool fs md5_hex str_of now m a)) =
     (objects m)(a := (objects m a)
        \<lparr>name := Some (case name (objects m a) of
                         None \<Rightarrow> ''tool_'' @ short_hash md5_hex (str_of (objects m a))
                       | Some n \<Rightarrow> n),
         updated_at := Some now\<rparr>)"
  by (simp add: save_tool_def Let_def)

lemma save_tool_tools:
  "tools (snd (save_tool fs md5_hex str_of now m a)) =
     (let k = (case name (objects m a) of
                 None \<Rightarrow> ''tool_'' @ short_hash md5_hex (str_of (objects m a))
               | Some n \<Rightarrow> n)
      in if fs (ToolFile k) then dict_set (tools m) k a else tools m)"
  by (simp add: save_tool_def Let_def)

lemma save_tool_archive_dir:
  "archive_dir (snd (save_tool fs md5_hex str_of now m a)) = archive_dir m"
  by (simp add: save_tool_def Let_def)

lemma store_inv_save_tool:
  assumes "store_inv m"
  shows "store_inv (snd (save_tool fs md5_hex str_of now m a))"
proof -
  define k where "k = (case name (objects m a) of
                         None \<Rightarrow> ''tool_'' @ short_hash md5_hex (str_of (objects m a))
                       | Some n \<Rightarrow> n)"
  define t' where "t' = (objects m a)\<lparr>name := Some k, updated_at := Some now\<rparr>"
  let ?P = "\<lambda>(k0, a0). name (((objects m)(a := t')) a0) = Some k0"
  have old: "list_all ?P (tools m)"
    unfolding list_all_iff
  proof (clarify)
    fix k0 a0
    assume "(k0, a0) \<in> set (tools m)"
    with assms have n: "name (objects m a0) = Some k0"
      by (auto simp: store_inv_def list_all_iff)
    show "name (((objects m)(a := t')) a0) = Some k0"
    proof (cases "a0 = a")
      case True
      with n have "k = k0" by (simp add: k_def)
      with True show ?thesis by (simp add: t'_def)
    next
      case False
      with n show ?thesis by simp
    qed
  qed
  have new: "?P (k, a)"
    by (simp add: t'_def)
  have "list_all ?P (dict_set (tools m) k a)"
    using old new by (rule list_all_dict_set)
  with old show ?thesis
    by (simp add: store_inv_def save_tool_def Let_def k_def [symmetric] t'_def [symmetric])
qed

lemma store_inv_archive_tool: "store_inv (snd (archive_tool fs now m u)) = store_inv m"
  by (simp add: store_inv_def archive_tool_def Let_def)

lemma store_inv_delete_tool:
  assumes "store_inv m"
  shows "store_inv (snd (delete_tool fs now m n))"
proof (cases "dict_get (tools m) n")
  case None
  with assms show ?thesis by (simp add: delete_tool_def)
next
  case (Some a)
  have "store_inv (m\<lparr>tools := dict_pop (tools m) n\<rparr>)"
    using assms by (simp add: store_inv_def list_all_dict_pop)
  then show ?thesis
    using Some
    by (simp add: delete_tool_def archive_tool_def Let_def store_inv_def)
qed

lemma integrate_memory:
  "fst (snd (integrate compile engine loads ex fs md5_hex str_of ig now m a h)) = m \<or>
   fst (snd (integrate compile engine loads ex fs md5_hex str_of ig now m a h)) =
     snd (save_tool fs md5_hex str_of now m a)"
  by (auto simp: integrate_def Let_def split: prod.splits sum.splits option.splits)

lemma store_inv_integrate:
  "store_inv m \<Longrightarrow>
   store_inv (fst (snd (integrate compile engine loads ex fs md5_hex str_of ig now m a h)))"
  using integrate_memory [of compile engine loads ex fs md5_hex str_of ig now m a h]
  by (auto simp: store_inv_save_tool)

lemma store_inv_force_integrate:
  "store_inv m \<Longrightarrow> store_inv (snd (force_integrate fs md5_hex str_of now m a))"
  using store_inv_save_tool [of m fs md5_hex str_of now a]
  by (cases "save_tool fs md5_hex str_of now m a")
     (auto simp: force_integrate_def Let_def split: option.splits)

lemma store_inv_upgrade:
  assumes "store_inv m"
  shows "store_inv (fst (snd
           (upgrade compile engine loads ex fs md5_hex str_of ig now_a now m n a h)))"
proof -
  define r where "r = (case get_tool m n of
              None \<Rightarrow> (None, m)
            | Some old \<Rightarrow> if tool_nonempty old then archive_tool fs now_a m old else (None, m))"
  have "store_inv (snd r)"
    using assms by (simp add: r_def store_inv_archive_tool split: option.splits)
  then show ?thesis
    unfolding upgrade_def r_def [symmetric]
    by (cases r) (auto simp: store_inv_integrate split: option.splits)
qed

text \<open>
  A store read from disk by \<^verbatim>\<open>_load_tools\<close> satisfies the invariant when every file
  holds a tool with a \<^verbatim>\<open>name\<close> key, as every file written by \<open>save_tool\<close> does. A file
  without that key is stored under its stem, and the invariant fails for it.
\<close>

lemma load_from_all:
  assumes "\<forall>(k, a)\<in>set acc. Q k a"
    and "\<forall>j<length files.
           Q (case name (snd (files ! j)) of None \<Rightarrow> fst (files ! j) | Some n \<Rightarrow> n) (i + j)"
  shows "\<forall>(k, a)\<in>set (load_from i files acc). Q k a"
  using assms
proof (induction files arbitrary: i acc)
  case Nil
  then show ?case by simp
next
  case (Cons f files)
  obtain stem t where f: "f = (stem, t)" by (cases f)
  let ?k = "case name t of None \<Rightarrow> stem | Some n \<Rightarrow> n"
  have q0: "Q ?k i"
    using Cons.prems(2) [rule_format, of 0] f by (cases "name t") simp_all
  have acc': "\<forall>(k, a)\<in>set (dict_set acc ?k i). Q k a"
    using Cons.prems(1) q0 set_dict_set [of acc ?k i] by auto
  have rest: "\<forall>j<length files.
           Q (case name (snd (files ! j)) of None \<Rightarrow> fst (files ! j) | Some n \<Rightarrow> n) (Suc i + j)"
  proof (intro allI impI)
    fix j assume "j < length files"
    then have "Suc j < length (f # files)" by simp
    with Cons.prems(2) [rule_format, of "Suc j"] show
      "Q (case name (snd (files ! j)) of None \<Rightarrow> fst (files ! j) | Some n \<Rightarrow> n) (Suc i + j)"
      by (cases "name (snd (files ! j))") simp_all
  qed
  from Cons.IH [OF acc' rest] f show ?case by simp
qed

lemma load_tools_store_inv:
  assumes "list_all (\<lambda>(s, t). name t \<noteq> None) files"
  shows "store_inv (loaded files a)"
proof -
  let ?Q = "\<lambda>k i. i < length files \<and> name (snd (files ! i)) = Some k"
  have "\<forall>j<length files.
          ?Q (case name (snd (files ! j)) of None \<Rightarrow> fst (files ! j) | Some n \<Rightarrow> n) (0 + j)"
  proof (intro allI impI)
    fix j assume j: "j < length files"
    then have "files ! j \<in> set files" by simp
    with assms have "name (snd (files ! j)) \<noteq> None"
      by (cases "files ! j") (auto simp: list_all_iff)
    with j show
      "?Q (case name (snd (files ! j)) of None \<Rightarrow> fst (files ! j) | Some n \<Rightarrow> n) (0 + j)"
      by auto
  qed
  with load_from_all [of "[]" ?Q files 0]
  have "\<forall>(k, i)\<in>set (load_tools files). ?Q k i"
    by (simp add: load_tools_def)
  then show ?thesis
    by (auto simp: store_inv_def loaded_def list_all_iff)
qed

lemma load_tools_nameless:
  "tools (loaded [(''notes'', empty_tool\<lparr>description := Some ''a note''\<rparr>)] []) = [(''notes'', 0)] \<and>
   name (objects (loaded [(''notes'', empty_tool\<lparr>description := Some ''a note''\<rparr>)] []) 0) = None \<and>
   \<not> store_inv (loaded [(''notes'', empty_tool\<lparr>description := Some ''a note''\<rparr>)] [])"
  by (simp add: loaded_def load_tools_def store_inv_def empty_tool_def)

text \<open>
  Claim C10, as the code has it. \<open>save_tool\<close> writes into the tool its \<^verbatim>\<open>name\<close> (the
  name it came with or, for a tool without one, \<^verbatim>\<open>tool_\<close> followed by the first ten
  characters of the MD5 digest of the tool's text) and the \<^verbatim>\<open>updated_at\<close> stamp of the
  clock. When the file \<^verbatim>\<open><name>.json\<close> can be written, the tool, the same object, is
  stored under that name, and right after the call \<open>get_tool\<close> at that name returns
  the saved tool. When the file cannot be written, \<open>save_tool\<close> raises, and the
  dictionary and the directory are as they were. Every operation that changes the store
  (\<open>save_tool\<close>, \<open>delete_tool\<close>, \<open>archive_tool\<close>, \<open>force_integrate\<close>, \<open>integrate\<close>,
  \<open>upgrade\<close>) preserves the invariant that each key of the store is the name of its
  tool, whether it raises or not.
\<close>

theorem store_key_is_name:
  "(let t = objects m a;
        k = (case name t of
               None \<Rightarrow> ''tool_'' @ take 10 (md5_hex (str_of t))
             | Some n \<Rightarrow> n);
        t' = t\<lparr>name := Some k, updated_at := Some now\<rparr>
    in case save_tool fs md5_hex str_of now m a of
         (err, m') \<Rightarrow>
           objects m' a = t' \<and>
           (if fs (ToolFile k)
            then err = None \<and> dict_get (tools m') k = Some a \<and> get_tool m' k = Some t' \<and>
                 dict_get (tools_dir m') k = Some t'
            else err = Some (OSError (ToolFile k)) \<and> tools m' = tools m \<and>
                 tools_dir m' = tools_dir m)) \<and>
   (store_inv m \<longrightarrow>
      store_inv (snd (save_tool fs md5_hex str_of now m a)) \<and>
      store_inv (snd (delete_tool fs now m n)) \<and>
      store_inv (snd (archive_tool fs now m u)) \<and>
      store_inv (snd (force_integrate fs md5_hex str_of now m a)) \<and>
      store_inv (fst (snd (integrate compile engine loads ex fs md5_hex str_of ig now m a h))) \<and>
      store_inv (fst (snd
        (upgrade compile engine loads ex fs md5_hex str_of ig now_a now m n a h))))"
proof -
  have "let t = objects m a;
        k = (case name t of
               None \<Rightarrow> ''tool_'' @ take 10 (md5_hex (str_of t))
             | Some n \<Rightarrow> n);
        t' = t\<lparr>name := Some k, updated_at := Some now\<rparr>
    in case save_tool fs md5_hex str_of now m a of
         (err, m') \<Rightarrow>
           objects m' a = t' \<and>
           (if fs (ToolFile k)
            then err = None \<and> dict_get (tools m') k = Some a \<and> get_tool m' k = Some t' \<and>
                 dict_get (tools_dir m') k = Some t'
            else err = Some (OSError (ToolFile k)) \<and> tools m' = tools m \<and>
                 tools_dir m' = tools_dir m)"
    by (cases "name (objects m a)")
       (simp_all add: save_tool_def Let_def get_tool_def dict_get_set short_hash_def)
  then show ?thesis
    by (simp add: store_inv_save_tool store_inv_delete_tool store_inv_archive_tool
        store_inv_force_integrate store_inv_integrate store_inv_upgrade)
qed

theorem store_key_is_name_witness:
  "store_inv store_v1 \<and>
   (case save_tool flat_fs md5_table str_empty 5 store_v1 2 of
      (err, m') \<Rightarrow>
        err = None \<and>
        objects m' 2 = empty_tool\<lparr>name := Some ''tool_99914b932b'', updated_at := Some 5\<rparr> \<and>
        dict_get (tools m') ''tool_99914b932b'' = Some 2 \<and>
        get_tool m' ''tool_99914b932b'' =
          Some (empty_tool\<lparr>name := Some ''tool_99914b932b'', updated_at := Some 5\<rparr>) \<and>
        store_inv m')"
proof -
  have inv: "store_inv store_v1"
    by (simp add: store_inv_def store_v1_def adder_v1_def adder_def)
  have e: "objects store_v1 2 = empty_tool" "name empty_tool = None"
    "str_empty empty_tool = ''{}''" "flat_fs (ToolFile ''tool_99914b932b'')"
    by (simp_all add: store_v1_def empty_tool_def str_empty_def flat_fs_def)
  have d: "take 10 (md5_table ''{}'') = ''99914b932b''"
    by (simp add: md5_table_def)
  note th = store_key_is_name [where m = store_v1 and a = 2 and fs = flat_fs
      and md5_hex = md5_table and str_of = str_empty and now = 5]
  have p1: "store_inv (snd (save_tool flat_fs md5_table str_empty 5 store_v1 2))"
    using th [THEN conjunct2] inv by blast
  show ?thesis
    using inv p1 th [THEN conjunct1] e d
    by (simp add: Let_def split: prod.splits)
qed

text \<open>
  Claim C10 as it is stated fails: the file \<^verbatim>\<open>net/fetch.json\<close> cannot be written into a
  directory without subdirectories, \<open>save_tool\<close> raises, and \<open>get_tool\<close> at the tool's
  name returns nothing.
\<close>

theorem save_tool_unwritable_counterexample:
  "(case save_tool flat_fs md5_table str_empty 5 (new_dict empty_memory 0 slash_tool) 0 of
      (err, m') \<Rightarrow>
        err = Some (OSError (ToolFile ''net/fetch'')) \<and> tools m' = [] \<and>
        get_tool m' ''net/fetch'' = None)"
  by code_simp

section \<open>The syntax pre-check\<close>

text \<open>
  Claim C8. When the source of a candidate fails the syntax pre-check, \<open>test_tool\<close>
  returns the verdict with \<open>passed = False\<close>, pass rate 0, no rows and the error text
  \<^verbatim>\<open>SyntaxError: ...\<close>, and it returns the host as it was: no script was handed to the
  engine and the world did not move.
\<close>

theorem test_tool_syntax_invalid:
  assumes "syntax_check compile (case code t of None \<Rightarrow> [] | Some s \<Rightarrow> s) = (False, Some e)"
  shows "test_tool compile engine loads ex t h =
           (Inr \<lparr>passed = False, pass_rate = 0, passed_count = None, total_count = None,
                 results = [], error = Some (''SyntaxError: '' @ e)\<rparr>, h) \<and>
         spawned (snd (test_tool compile engine loads ex t h)) = spawned h"
  using assms by (simp add: test_tool_def)

theorem test_tool_syntax_invalid_witness:
  "syntax_check compile_parens (case code broken of None \<Rightarrow> [] | Some s \<Rightarrow> s) =
     (False,
      Some ([CHR 0x27] @ ''('' @ [CHR 0x27] @ '' was never closed (<generated>, line 1)'')) \<and>
   test_tool compile_parens scripted loads_scalar executor0 broken
       \<lparr>world = [said ''done''], spawned = []\<rparr> =
     (Inr \<lparr>passed = False, pass_rate = 0, passed_count = None, total_count = None,
           results = [],
           error = Some (''SyntaxError: '' @ [CHR 0x27] @ ''('' @ [CHR 0x27] @
                         '' was never closed (<generated>, line 1)'')\<rparr>,
      \<lparr>world = [said ''done''], spawned = []\<rparr>)"
proof -
  have c: "syntax_check compile_parens (case code broken of None \<Rightarrow> [] | Some s \<Rightarrow> s) =
     (False,
      Some ([CHR 0x27] @ ''('' @ [CHR 0x27] @ '' was never closed (<generated>, line 1)''))"
    by (simp add: syntax_check_def compile_parens_def broken_def)
  show ?thesis
    using c test_tool_syntax_invalid [OF c, where engine = scripted and loads = loads_scalar
        and ex = executor0 and h = "\<lparr>world = [said ''done''], spawned = []\<rparr>"]
    by simp
qed

section \<open>Integration\<close>

text \<open>
  Claim C2. When the verdict of the candidate is not passed, \<open>integrate\<close> returns the
  store as it was, so \<open>get_tool\<close> answers as before at every name, in particular at the
  candidate's; the candidate itself is not changed either, and the answer has
  \<open>ok = False\<close>.
\<close>

theorem integrate_not_passed_frame:
  assumes "test_tool compile engine loads ex (objects m a) h = (Inr v, h')" and "\<not> passed v"
  shows "(case integrate compile engine loads ex fs md5_hex str_of ig now m a h of
            (res, m', h'') \<Rightarrow>
              m' = m \<and> objects m' a = objects m a \<and> h'' = h' \<and>
              get_tool m' n = get_tool m n \<and>
              (case res of Inl e \<Rightarrow> False | Inr r \<Rightarrow> \<not> ok r))"
  using assms by (simp add: integrate_def Let_def)

theorem integrate_not_passed_frame_witness:
  "test_tool compile_parens scripted loads_scalar executor0 (objects store_v1 1)
       \<lparr>world = [said ''''], spawned = []\<rparr> =
     (Inr \<lparr>passed = False, pass_rate = 0, passed_count = Some 0, total_count = Some 1,
           results = [\<lparr>tc_label = ''basic add'', tc_passed = False, expected_success = True,
                       actual_success = JBool False, tc_output = JNull,
                       tc_error = JStr ''no output'', tc_elapsed = JFloat (1 / 10)\<rparr>],
           error = None\<rparr>,
      \<lparr>world = [], spawned = [Runner ''def add(a, b): return a + b'' ''add''
                                 [(''a'', JInt 2), (''b'', JInt 3)]]\<rparr>) \<and>
   fst (snd (integrate compile_parens scripted loads_scalar executor0 flat_fs md5_table
               str_empty \<lparr>threshold = 3 / 4\<rparr> 9 store_v1 1
               \<lparr>world = [said ''''], spawned = []\<rparr>)) = store_v1 \<and>
   get_tool (fst (snd (integrate compile_parens scripted loads_scalar executor0 flat_fs
               md5_table str_empty \<lparr>threshold = 3 / 4\<rparr> 9 store_v1 1
               \<lparr>world = [said ''''], spawned = []\<rparr>))) ''adder'' = Some adder_v1"
proof -
  have v: "test_tool compile_parens scripted loads_scalar executor0 (objects store_v1 1)
       \<lparr>world = [said ''''], spawned = []\<rparr> =
     (Inr \<lparr>passed = False, pass_rate = 0, passed_count = Some 0, total_count = Some 1,
           results = [\<lparr>tc_label = ''basic add'', tc_passed = False, expected_success = True,
                       actual_success = JBool False, tc_output = JNull,
                       tc_error = JStr ''no output'', tc_elapsed = JFloat (1 / 10)\<rparr>],
           error = None\<rparr>,
      \<lparr>world = [], spawned = [Runner ''def add(a, b): return a + b'' ''add''
                                 [(''a'', JInt 2), (''b'', JInt 3)]]\<rparr>)"
    by code_simp
  have g: "get_tool store_v1 ''adder'' = Some adder_v1"
    by (simp add: get_tool_def store_v1_def dict_get_def)
  show ?thesis
    using v g
      integrate_not_passed_frame [OF v, where fs = flat_fs and md5_hex = md5_table
        and str_of = str_empty and ig = "\<lparr>threshold = 3 / 4\<rparr>" and now = 9
        and n = "''adder''"]
    by (simp split: prod.splits)
qed

text \<open>An exception of \<open>test_tool\<close> passes through \<open>integrate\<close>, which leaves the store alone.\<close>

lemma integrate_error_frame:
  assumes "test_tool compile engine loads ex (objects m a) h = (Inl e, h')"
  shows "integrate compile engine loads ex fs md5_hex str_of ig now m a h = (Inl e, m, h')"
  using assms by (simp add: integrate_def Let_def)

text \<open>
  On a passed verdict the store after \<open>integrate\<close> is the store after \<open>save_tool\<close>:
  the candidate takes the place of the tool that was stored under its name. Whatever
  the verdict, \<open>integrate\<close> leaves the archive as it was.
\<close>

lemma integrate_passed_saves:
  assumes "test_tool compile engine loads ex (objects m a) h = (Inr v, h')" and "passed v"
  shows "fst (snd (integrate compile engine loads ex fs md5_hex str_of ig now m a h)) =
           snd (save_tool fs md5_hex str_of now m a)"
  using assms
  by (cases "save_tool fs md5_hex str_of now m a")
     (auto simp: integrate_def Let_def split: option.splits)

lemma integrate_never_archives:
  "archive_dir (fst (snd (integrate compile engine loads ex fs md5_hex str_of ig now m a h))) =
     archive_dir m"
  using integrate_memory [of compile engine loads ex fs md5_hex str_of ig now m a h]
  by (auto simp: save_tool_archive_dir)

text \<open>
  Claim C1 fails on the code. \<open>store_v1\<close> holds \<open>adder_v1\<close> under the name
  \<^verbatim>\<open>adder\<close>. Integrating the candidate \<open>adder\<close> succeeds, and afterwards the store and
  the tool file hold the candidate in the place of \<open>adder_v1\<close>, while the archive is
  empty: the earlier version is lost. A second integration of the same candidate
  succeeds too and the archive is still empty; \<open>get_tool\<close> returns the candidate after
  each call, with the \<^verbatim>\<open>updated_at\<close> stamp of that call.
\<close>

theorem integrate_overwrites_without_archive:
  "get_tool store_v1 ''adder'' = Some adder_v1 \<and>
   (case fst first_commit of Inl e \<Rightarrow> False | Inr r \<Rightarrow> ok r) \<and>
   get_tool (fst (snd first_commit)) ''adder'' = Some (adder\<lparr>updated_at := Some 9\<rparr>) \<and>
   dict_get (tools_dir (fst (snd first_commit))) ''adder'' = Some (adder\<lparr>updated_at := Some 9\<rparr>) \<and>
   adder\<lparr>updated_at := Some 9\<rparr> \<noteq> adder_v1 \<and>
   archive_dir (fst (snd first_commit)) = [] \<and>
   (case fst second_commit of Inl e \<Rightarrow> False | Inr r \<Rightarrow> ok r) \<and>
   get_tool (fst (snd second_commit)) ''adder'' = Some (adder\<lparr>updated_at := Some 12\<rparr>) \<and>
   archive_dir (fst (snd second_commit)) = []"
  by code_simp

text \<open>
  The sibling operations do archive. \<open>upgrade\<close>: the tool stored under the given name,
  when it is not empty and the archive file can be written, is in the archive
  afterwards, under that tool's own name and the second of the clock. \<open>delete_tool\<close>:
  the deleted tool is in the archive afterwards.
\<close>

lemma upgrade_archives_old:
  assumes "get_tool m n = Some old" and "tool_nonempty old"
    and "fs (ArchiveFile (case name old of None \<Rightarrow> ''unknown'' | Some k \<Rightarrow> k)
               (now_a div 1000000))"
  shows "dict_get (archive_dir (fst (snd
           (upgrade compile engine loads ex fs md5_hex str_of ig now_a now m n a h))))
           (case name old of None \<Rightarrow> ''unknown'' | Some k \<Rightarrow> k, now_a div 1000000) = Some old"
proof -
  define m1 where "m1 = snd (archive_tool fs now_a m old)"
  have r: "archive_tool fs now_a m old = (None, m1)"
    using assms(3) by (simp add: m1_def archive_tool_def Let_def)
  have a: "dict_get (archive_dir m1)
             (case name old of None \<Rightarrow> ''unknown'' | Some k \<Rightarrow> k, now_a div 1000000) = Some old"
    using assms(3) by (simp add: m1_def archive_tool_def Let_def dict_get_set)
  have "upgrade compile engine loads ex fs md5_hex str_of ig now_a now m n a h =
        integrate compile engine loads ex fs md5_hex str_of ig now m1 a h"
    using assms(1,2) r by (simp add: upgrade_def)
  with a show ?thesis
    by (simp add: integrate_never_archives)
qed

lemma delete_tool_archives:
  assumes "dict_get (tools m) n = Some a"
    and "fs (ArchiveFile (case name (objects m a) of None \<Rightarrow> ''unknown'' | Some k \<Rightarrow> k)
               (now div 1000000))"
  shows "dict_get (archive_dir (snd (delete_tool fs now m n)))
           (case name (objects m a) of None \<Rightarrow> ''unknown'' | Some k \<Rightarrow> k, now div 1000000) =
           Some (objects m a)"
  using assms by (simp add: delete_tool_def archive_tool_def Let_def dict_get_set)

section \<open>The pass threshold\<close>

text \<open>
  For a candidate with valid syntax and a suite that is not empty, the verdict's pass
  rate is the quotient of the hits by the number of cases, and \<open>passed\<close> compares it
  with the constant \<open>3 / 4\<close>.
\<close>

lemma test_tool_rate:
  assumes "test_tool compile engine loads ex t h = (Inr v, h')"
    and "passed_count v = Some p" and "total_count v = Some n"
  shows "pass_rate v = of_nat p / of_nat n \<and> passed v = (3 / 4 \<le> pass_rate v) \<and>
         n = length (case test_cases t of None \<Rightarrow> [] | Some l \<Rightarrow> l) \<and> 0 < n"
  using assms
  by (auto simp: test_tool_def Let_def split: prod.splits if_splits sum.splits)

text \<open>The threshold the integrator was configured with has no influence on \<open>integrate\<close>.\<close>

lemma integrate_threshold_unused:
  "integrate compile engine loads ex fs md5_hex str_of ig now m a h =
   integrate compile engine loads ex fs md5_hex str_of ig' now m a h"
  by (simp add: integrate_def)

text \<open>
  Claim C3 fails on the code for a configured threshold other than 0.75. With the
  integrator configured with the threshold \<open>1 / 2\<close>, \<open>half_tool\<close> passes two of its four
  cases: the pass rate \<open>1 / 2\<close> reaches the threshold, yet the verdict is not passed,
  \<open>integrate\<close> answers \<open>ok = False\<close> and the tool is not in the store.
\<close>

theorem integrate_ignores_configured_threshold:
  "(case fst (test_tool compile_parens scripted loads_scalar executor0 half_tool host_half) of
      Inl e \<Rightarrow> False
    | Inr v \<Rightarrow> passed_count v = Some 2 \<and> total_count v = Some 4 \<and> pass_rate v = 1 / 2 \<and>
              threshold \<lparr>threshold = 1 / 2\<rparr> \<le> pass_rate v \<and> \<not> passed v) \<and>
   (case integrate compile_parens scripted loads_scalar executor0 flat_fs md5_table str_empty
           \<lparr>threshold = 1 / 2\<rparr> 9 (new_dict empty_memory 0 half_tool) 0 host_half of
      (res, m', h') \<Rightarrow>
        (case res of Inl e \<Rightarrow> False | Inr r \<Rightarrow> \<not> ok r \<and> i_pass_rate r = Some (1 / 2)) \<and>
        get_tool m' ''half'' = None)"
  by code_simp

section \<open>The success of one test case\<close>

text \<open>
  One turn of the loop of \<open>test_tool\<close>: the row of a test case records, as its
  \<^verbatim>\<open>actual_success\<close>, the value that \<open>actual_ok\<close> computes from the engine's result
  for that case, and the case is a hit when that value equals the expected one.
\<close>

lemma test_loop_step:
  assumes "run_code engine loads ex h code' func_name'
             (Some (case input tc of None \<Rightarrow> [] | Some d \<Rightarrow> d)) = (r, h')"
    and "e = (case expect_success tc of None \<Rightarrow> True | Some b \<Rightarrow> b)"
    and "actual_ok r e = Inr a"
  shows "test_loop engine loads ex code' func_name' (tc # tcs) (rows, hits) h =
           test_loop engine loads ex code' func_name' tcs
             (rows @ [\<lparr>tc_label = (case label tc of None \<Rightarrow> ''unnamed'' | Some l \<Rightarrow> l),
                       tc_passed = py_eq_bool a e, expected_success = e, actual_success = a,
                       tc_output = get_or_none r ''output'', tc_error = get_or_none r ''error'',
                       tc_elapsed = get_or_none r ''elapsed''\<rparr>],
              if py_eq_bool a e then hits + 1 else hits) h'"
  using assms by (simp add: Let_def)

text \<open>
  Claim C4, as the code has it. When the engine's result carries \<^verbatim>\<open>ok\<close> as a \<^verbatim>\<open>bool\<close>:
  \<^verbatim>\<open>ok = false\<close> gives the actual success \<^verbatim>\<open>False\<close>; \<^verbatim>\<open>ok = true\<close> with an output that is a
  \<^verbatim>\<open>dict\<close> gives the \<^verbatim>\<open>dict\<close>'s \<^verbatim>\<open>success\<close> entry, and \<^verbatim>\<open>True\<close> when it has none;
  \<^verbatim>\<open>ok = true\<close> with no output (\<^verbatim>\<open>None\<close>) gives \<^verbatim>\<open>True\<close> only when the case does not expect
  success, and \<^verbatim>\<open>False\<close> when it does; every other \<^verbatim>\<open>ok = true\<close> result gives \<^verbatim>\<open>True\<close>.
\<close>

theorem actual_ok_precedence:
  assumes "dict_get r ''ok'' = Some (JBool b)"
  shows "actual_ok r e =
           Inr (if \<not> b then JBool False
                else (case get_or_none r ''output'' of
                        JDict d \<Rightarrow> (case dict_get d ''success'' of
                                      None \<Rightarrow> JBool True
                                    | Some s \<Rightarrow> s)
                      | JNull \<Rightarrow> JBool (\<not> e)
                      | _ \<Rightarrow> JBool True))"
  using assms by (simp add: actual_ok_def Let_def split: json.splits)

theorem actual_ok_precedence_witness:
  "dict_get [(''ok'', JBool True),
             (''output'', JDict [(''success'', JBool False), (''error'', JStr ''no such file'')]),
             (''elapsed'', JFloat (1 / 10))] ''ok'' = Some (JBool True) \<and>
   actual_ok [(''ok'', JBool True),
              (''output'', JDict [(''success'', JBool False), (''error'', JStr ''no such file'')]),
              (''elapsed'', JFloat (1 / 10))] True = Inr (JBool False)"
proof -
  have k: "dict_get [(''ok'', JBool True),
             (''output'', JDict [(''success'', JBool False), (''error'', JStr ''no such file'')]),
             (''elapsed'', JFloat (1 / 10))] ''ok'' = Some (JBool True)"
    by (simp add: dict_get_def)
  show ?thesis
    using k actual_ok_precedence [OF k, of True]
    by (simp add: get_or_none_def dict_get_def)
qed

text \<open>
  Claim C4 as it is stated fails: the result \<^verbatim>\<open>{"ok": true, "output": null}\<close> of an
  entry point that returns \<^verbatim>\<open>None\<close> has \<^verbatim>\<open>ok = true\<close> and an output that is no mapping,
  and for a case that expects success its actual success is \<^verbatim>\<open>False\<close>.
\<close>

theorem actual_ok_none_output_counterexample:
  "actual_ok [(''ok'', JBool True), (''output'', JNull), (''elapsed'', JFloat (1 / 10))] True =
     Inr (JBool False)"
  by (simp add: actual_ok_def get_or_none_def dict_get_def)

section \<open>The results of the engine\<close>

text \<open>
  When the child's standard output, stripped, is not empty and \<^verbatim>\<open>json.loads\<close> rejects it,
  \<open>run\<close> answers \<open>ok = True\<close> with the stripped text as output and the measured time.
\<close>

lemma run_undecodable_stdout:
  assumes "engine (world h) ex script = (c, w)" and "outcome c = Completed out err"
    and "str_strip out \<noteq> []" and "loads (str_strip out) = None"
  shows "fst (run engine loads ex h script) =
           [(''ok'', JBool True), (''output'', JStr (str_strip out)),
            (''elapsed'', JFloat (elapsed c)), (''error'', JNull)]"
  using assms by (simp add: run_def Let_def)

text \<open>
  Claim C9 fails on the code for a standard output that is JSON but no object. When
  the stripped output decodes to an integer, the assignment of the \<^verbatim>\<open>elapsed\<close> key raises
  \<^verbatim>\<open>TypeError\<close>, the general handler catches it, and \<open>run\<close> answers \<open>ok = False\<close> with
  no output and the text of the exception as error.
\<close>

theorem run_scalar_stdout_is_failure:
  assumes "engine (world h) ex script = (c, w)" and "outcome c = Completed out err"
    and "str_strip out \<noteq> []" and "loads (str_strip out) = Some (JInt i)"
  shows "fst (run engine loads ex h script) =
           [(''ok'', JBool False), (''output'', JNull),
            (''error'', JStr ([CHR 0x27] @ ''int'' @ [CHR 0x27] @
                             '' object does not support item assignment'')),
            (''elapsed'', JFloat (elapsed_late c))]"
  using assms by (simp add: run_def Let_def failure_def no_item_assignment_def)

theorem run_scalar_stdout_is_failure_witness:
  "scripted (world \<lparr>world = [said ''42''], spawned = []\<rparr>) executor0
       (Runner ''print(42); raise SystemExit'' ''f'' []) = (said ''42'', []) \<and>
   outcome (said ''42'') = Completed ''42'' [] \<and> str_strip ''42'' \<noteq> [] \<and>
   loads_scalar (str_strip ''42'') = Some (JInt 42) \<and>
   fst (run scripted loads_scalar executor0 \<lparr>world = [said ''42''], spawned = []\<rparr>
          (Runner ''print(42); raise SystemExit'' ''f'' [])) =
     [(''ok'', JBool False), (''output'', JNull),
      (''error'', JStr ([CHR 0x27] @ ''int'' @ [CHR 0x27] @
                       '' object does not support item assignment'')),
      (''elapsed'', JFloat (2 / 10))]"
proof -
  have a: "scripted (world \<lparr>world = [said ''42''], spawned = []\<rparr>) executor0
       (Runner ''print(42); raise SystemExit'' ''f'' []) = (said ''42'', [])"
    by (simp add: scripted_def)
  have b: "outcome (said ''42'') = Completed ''42'' []"
    by (simp add: said_def)
  have c: "str_strip ''42'' \<noteq> []"
    by (simp add: str_strip_def is_space_def)
  have d: "loads_scalar (str_strip ''42'') = Some (JInt 42)"
    by (simp add: str_strip_def is_space_def loads_scalar_def is_digit_def)
  show ?thesis
    using a b c d
      run_scalar_stdout_is_failure [where engine = scripted and loads = loads_scalar
        and ex = executor0 and h = "\<lparr>world = [said ''42''], spawned = []\<rparr>"
        and script = "Runner ''print(42); raise SystemExit'' ''f'' []"
        and c = "said ''42''" and out = "''42''", OF a b c d]
    by (simp add: said_def)
qed

text \<open>
  Claim C7 fails on the code for a tool without source text or entry point:
  \<open>run_tool\<close> answers at once, with \<open>ok = False\<close> and an error text, and the answer has
  no \<^verbatim>\<open>elapsed\<close> key; nothing is handed to the engine.
\<close>

theorem run_tool_without_code_has_no_elapsed:
  "run_tool engine loads ex h (t\<lparr>code := None\<rparr>) task kwargs =
     ([(''ok'', JBool False), (''output'', JNull),
       (''error'', JStr ''tool missing code or func_name'')], h) \<and>
   dict_get (fst (run_tool engine loads ex h (t\<lparr>code := None\<rparr>) task kwargs)) ''elapsed'' = None"
  by (simp add: run_tool_def Let_def dict_get_def)

text \<open>Every answer of \<open>run\<close>, and so of \<open>run_code\<close>, does carry the \<^verbatim>\<open>elapsed\<close> key.\<close>

lemma run_has_elapsed: "dict_get (fst (run engine loads ex h script)) ''elapsed'' \<noteq> None"
proof -
  obtain c w where e: "engine (world h) ex script = (c, w)"
    by (cases "engine (world h) ex script")
  have s: "\<And>data k v d. setitem data k v = Inr d \<Longrightarrow> dict_get d k = Some v"
    subgoal for data k v d by (cases data) (auto simp: dict_get_set)
    done
  show ?thesis
    using e
    by (auto simp: run_def Let_def failure_def dict_get_def [of "_ # _"]
        split: proc.splits option.splits sum.splits dest: s)
qed

section \<open>The relevance selector\<close>

text \<open>\<open>contains\<close> is the substring test: the word occurs somewhere inside the text.\<close>

lemma starts_with_iff: "starts_with hay w \<longleftrightarrow> (\<exists>s. hay = w @ s)"
  by (induction hay w rule: starts_with.induct) auto

lemma contains_iff: "contains hay w \<longleftrightarrow> (\<exists>p s. hay = p @ w @ s)"
proof (induction hay)
  case Nil
  then show ?case by auto
next
  case (Cons d hay)
  have "(\<exists>p s. d # hay = p @ w @ s) \<longleftrightarrow>
        (\<exists>s. d # hay = w @ s) \<or> (\<exists>p s. hay = p @ w @ s)"
  proof
    assume "\<exists>p s. d # hay = p @ w @ s"
    then obtain p s where ps: "d # hay = p @ w @ s" by blast
    show "(\<exists>s. d # hay = w @ s) \<or> (\<exists>p s. hay = p @ w @ s)"
    proof (cases p)
      case Nil
      with ps show ?thesis by auto
    next
      case (Cons a p')
      with ps have "hay = p' @ w @ s" by simp
      then show ?thesis by blast
    qed
  next
    assume "(\<exists>s. d # hay = w @ s) \<or> (\<exists>p s. hay = p @ w @ s)"
    then show "\<exists>p s. d # hay = p @ w @ s"
    proof
      assume "\<exists>s. d # hay = w @ s"
      then obtain s where "d # hay = [] @ w @ s" by auto
      then show ?thesis by blast
    next
      assume "\<exists>p s. hay = p @ w @ s"
      then obtain p s where "d # hay = (d # p) @ w @ s" by auto
      then show ?thesis by blast
    qed
  qed
  with Cons show ?case by (simp add: starts_with_iff)
qed

text \<open>The score counts the distinct task words that occur inside the tool's text.\<close>

lemma score_card:
  "distinct ws \<Longrightarrow> score ws t = card {w \<in> set ws. \<exists>p s. tool_text t = p @ w @ s}"
  by (simp add: score_def contains_iff distinct_length_filter Int_def conj_commute)

text \<open>
  The loop of \<open>best_tool_for\<close>: the final score bounds every score, and the final
  choice is either the one the loop started with or the first tool of the list that
  reaches the final score.
\<close>

lemma best_loop_upper:
  "best_loop ws ts (b, s) = (b', s') \<Longrightarrow> s \<le> s' \<and> (\<forall>u\<in>set ts. score ws u \<le> s')"
proof (induction ts arbitrary: b s)
  case Nil
  then show ?case by simp
next
  case (Cons t ts)
  show ?case
  proof (cases "score ws t > s")
    case True
    with Cons.prems have "best_loop ws ts (Some t, score ws t) = (b', s')" by simp
    from Cons.IH [OF this] True show ?thesis by auto
  next
    case False
    with Cons.prems have "best_loop ws ts (b, s) = (b', s')" by simp
    from Cons.IH [OF this] False show ?thesis by auto
  qed
qed

lemma best_loop_first:
  "best_loop ws ts (b, s) = (b', s') \<Longrightarrow>
   (b' = b \<and> s' = s) \<or>
   (\<exists>pre t post. ts = pre @ t # post \<and> b' = Some t \<and> s' = score ws t \<and> s < s' \<and>
      (\<forall>u\<in>set pre. score ws u < s'))"
proof (induction ts arbitrary: b s)
  case Nil
  then show ?case by simp
next
  case (Cons t ts)
  show ?case
  proof (cases "score ws t > s")
    case True
    with Cons.prems have r: "best_loop ws ts (Some t, score ws t) = (b', s')" by simp
    from Cons.IH [OF r] show ?thesis
    proof
      assume "b' = Some t \<and> s' = score ws t"
      with True have "t # ts = [] @ t # ts \<and> b' = Some t \<and> s' = score ws t \<and> s < s' \<and>
          (\<forall>u\<in>set []. score ws u < s')" by simp
      then show ?thesis by blast
    next
      assume "\<exists>pre t' post. ts = pre @ t' # post \<and> b' = Some t' \<and> s' = score ws t' \<and>
          score ws t < s' \<and> (\<forall>u\<in>set pre. score ws u < s')"
      then obtain pre t' post where p: "ts = pre @ t' # post" "b' = Some t'" "s' = score ws t'"
          "score ws t < s'" "\<forall>u\<in>set pre. score ws u < s'" by blast
      with True have "t # ts = (t # pre) @ t' # post \<and> b' = Some t' \<and> s' = score ws t' \<and>
          s < s' \<and> (\<forall>u\<in>set (t # pre). score ws u < s')" by auto
      then show ?thesis by blast
    qed
  next
    case False
    with Cons.prems have r: "best_loop ws ts (b, s) = (b', s')" by simp
    from Cons.IH [OF r] show ?thesis
    proof
      assume "b' = b \<and> s' = s"
      then show ?thesis by simp
    next
      assume "\<exists>pre t' post. ts = pre @ t' # post \<and> b' = Some t' \<and> s' = score ws t' \<and>
          s < s' \<and> (\<forall>u\<in>set pre. score ws u < s')"
      then obtain pre t' post where p: "ts = pre @ t' # post" "b' = Some t'" "s' = score ws t'"
          "s < s'" "\<forall>u\<in>set pre. score ws u < s'" by blast
      with False have "t # ts = (t # pre) @ t' # post \<and> b' = Some t' \<and> s' = score ws t' \<and>
          s < s' \<and> (\<forall>u\<in>set (t # pre). score ws u < s')" by auto
      then show ?thesis by blast
    qed
  qed
qed

text \<open>
  Claim C5, as the code has it. \<open>best_tool_for\<close> turns the task into the set of its
  lower-case words and scores every stored tool by the number of those words that occur
  as substrings of the lower-cased text \<^verbatim>\<open>name + " " + description\<close>. It returns a tool
  of the store with the maximal score when that score is at least 2, and nothing when
  every score is below 2.
\<close>

theorem best_tool_for_max_score:
  "(case best_tool_for m task of
      None \<Rightarrow> \<forall>u\<in>set (all_tools m). score (remdups (str_split (str_lower task))) u < 2
    | Some t \<Rightarrow>
        t \<in> set (all_tools m) \<and> 2 \<le> score (remdups (str_split (str_lower task))) t \<and>
        (\<forall>u\<in>set (all_tools m).
           score (remdups (str_split (str_lower task))) u \<le>
           score (remdups (str_split (str_lower task))) t)) \<and>
   (\<forall>u. score (remdups (str_split (str_lower task))) u =
        card {w \<in> set (str_split (str_lower task)). \<exists>p s. tool_text u = p @ w @ s})"
proof -
  let ?ws = "remdups (str_split (str_lower task))"
  obtain b' s' where r: "best_loop ?ws (all_tools m) (None, 0) = (b', s')"
    by (cases "best_loop ?ws (all_tools m) (None, 0)")
  have res: "best_tool_for m task = (if s' \<ge> 2 then b' else None)"
    using r by (simp add: best_tool_for_def Let_def)
  note up = best_loop_upper [OF r] and fi = best_loop_first [OF r]
  have "case best_tool_for m task of
      None \<Rightarrow> \<forall>u\<in>set (all_tools m). score ?ws u < 2
    | Some t \<Rightarrow>
        t \<in> set (all_tools m) \<and> 2 \<le> score ?ws t \<and>
        (\<forall>u\<in>set (all_tools m). score ?ws u \<le> score ?ws t)"
  proof (cases "s' \<ge> 2")
    case True
    with fi obtain pre t post where p: "all_tools m = pre @ t # post" "b' = Some t"
        "s' = score ?ws t" by auto
    with True up res show ?thesis by auto
  next
    case False
    with up res show ?thesis by (auto simp: not_le)
  qed
  moreover have "\<forall>u. score ?ws u = card {w \<in> set (str_split (str_lower task)). \<exists>p s. tool_text u = p @ w @ s}"
    using score_card [of ?ws] by simp
  ultimately show ?thesis by blast
qed

theorem best_tool_for_max_score_witness:
  "best_tool_for store_csv ''Read  the CSV files'' = Some (csv_reader\<lparr>updated_at := Some 2\<rparr>) \<and>
   score (remdups (str_split (str_lower ''Read  the CSV files'')))
     (csv_reader\<lparr>updated_at := Some 2\<rparr>) = 3 \<and>
   score (remdups (str_split (str_lower ''Read  the CSV files'')))
     (csv_loader\<lparr>updated_at := Some 3\<rparr>) \<le>
   score (remdups (str_split (str_lower ''Read  the CSV files'')))
     (csv_reader\<lparr>updated_at := Some 2\<rparr>)"
proof -
  have b: "best_tool_for store_csv ''Read  the CSV files'' =
      Some (csv_reader\<lparr>updated_at := Some 2\<rparr>)"
    by code_simp
  have s: "score (remdups (str_split (str_lower ''Read  the CSV files'')))
     (csv_reader\<lparr>updated_at := Some 2\<rparr>) = 3"
    by code_simp
  have l: "csv_loader\<lparr>updated_at := Some 3\<rparr> \<in> set (all_tools store_csv)"
    by code_simp
  show ?thesis
    using b s l
      best_tool_for_max_score [of store_csv "''Read  the CSV files''", THEN conjunct1]
    by simp
qed

text \<open>
  Claim C5 as it is stated fails: no word of the task \<^verbatim>\<open>read file\<close> is a token of the
  text \<^verbatim>\<open>profiler profile threads\<close>, so the specification's score is 0 and its answer
  is "absent"; both words occur inside tokens of it, and the code returns the tool.
\<close>

theorem best_tool_for_substring_counterexample:
  "spec_score (remdups (str_split (str_lower ''read file''))) profiler = 0 \<and>
   score (remdups (str_split (str_lower ''read file''))) profiler = 2 \<and>
   best_tool_for store_profiler ''read file'' = Some profiler"
  by code_simp

text \<open>
  The order of the store is the order in which the names were first saved: saving under
  a name that is present keeps the order of the keys, a new name goes to the end.
\<close>

lemma save_tool_order:
  "map fst (tools (snd (save_tool fs md5_hex str_of now m a))) =
     (let k = (case name (objects m a) of
                 None \<Rightarrow> ''tool_'' @ short_hash md5_hex (str_of (objects m a))
               | Some n \<Rightarrow> n)
      in if fs (ToolFile k) \<and> k \<notin> set (map fst (tools m))
         then map fst (tools m) @ [k] else map fst (tools m))"
  by (simp add: save_tool_def Let_def dict_set_keys)

text \<open>
  Claim C6, as the code has it. The tool that \<open>best_tool_for\<close> returns is the first
  one, in the order of the store, that reaches its score: every tool before it has a
  strictly lower score. Among tools that tie at the maximal score the one whose name was
  saved first is returned; the \<^verbatim>\<open>updated_at\<close> stamps play no part.
\<close>

theorem best_tool_for_first_of_ties:
  assumes "best_tool_for m task = Some t"
  shows "\<exists>pre post. all_tools m = pre @ t # post \<and>
           (\<forall>u\<in>set pre. score (remdups (str_split (str_lower task))) u <
                         score (remdups (str_split (str_lower task))) t)"
proof -
  let ?ws = "remdups (str_split (str_lower task))"
  obtain b' s' where r: "best_loop ?ws (all_tools m) (None, 0) = (b', s')"
    by (cases "best_loop ?ws (all_tools m) (None, 0)")
  have res: "best_tool_for m task = (if s' \<ge> 2 then b' else None)"
    using r by (simp add: best_tool_for_def Let_def)
  with assms have "b' = Some t" by (auto split: if_splits)
  with best_loop_first [OF r] show ?thesis by auto
qed

theorem best_tool_for_first_of_ties_witness:
  "best_tool_for store_csv ''csv files'' = Some (csv_reader\<lparr>updated_at := Some 2\<rparr>) \<and>
   (\<exists>pre post. all_tools store_csv = pre @ csv_reader\<lparr>updated_at := Some 2\<rparr> # post \<and>
      (\<forall>u\<in>set pre. score (remdups (str_split (str_lower ''csv files''))) u <
                    score (remdups (str_split (str_lower ''csv files'')))
                      (csv_reader\<lparr>updated_at := Some 2\<rparr>)))"
proof -
  have b: "best_tool_for store_csv ''csv files'' = Some (csv_reader\<lparr>updated_at := Some 2\<rparr>)"
    by code_simp
  show ?thesis
    using b best_tool_for_first_of_ties [OF b] by simp
qed

text \<open>
  Claim C6 as it is stated fails: in \<open>store_csv\<close> the tools \<^verbatim>\<open>csv-reader\<close> (updated at
  time 2) and \<^verbatim>\<open>csv-loader\<close> (updated at time 3) tie at the maximal score 2 for the task
  \<^verbatim>\<open>csv files\<close>, and the one returned is \<^verbatim>\<open>csv-reader\<close>, not the most recently updated.
\<close>

theorem best_tool_for_tie_counterexample:
  "get_tool store_csv ''csv-reader'' = Some (csv_reader\<lparr>updated_at := Some 2\<rparr>) \<and>
   get_tool store_csv ''csv-loader'' = Some (csv_loader\<lparr>updated_at := Some 3\<rparr>) \<and>
   get_tool store_csv ''json-parser'' = Some (json_parser\<lparr>updated_at := Some 1\<rparr>) \<and>
   score (remdups (str_split (str_lower ''csv files''))) (csv_reader\<lparr>updated_at := Some 2\<rparr>) = 2 \<and>
   score (remdups (str_split (str_lower ''csv files''))) (csv_loader\<lparr>updated_at := Some 3\<rparr>) = 2 \<and>
   score (remdups (str_split (str_lower ''csv files''))) (json_parser\<lparr>updated_at := Some 1\<rparr>) = 0 \<and>
   best_tool_for store_csv ''csv files'' = Some (csv_reader\<lparr>updated_at := Some 2\<rparr>)"
  by code_simp

end
